theory Spec2Isabelle
  imports Main
begin

section \<open>Python strings and values used by the program\<close>

text \<open>
  Strings are character lists. The case mappings are those of \<^verbatim>\<open>str.upper\<close> and
  \<^verbatim>\<open>str.lower\<close> on ASCII text: the 26 letters are mapped, every other
  character is kept.
\<close>

definition upper_char :: "char \<Rightarrow> char" where
  "upper_char c =
     (case map_of (zip ''abcdefghijklmnopqrstuvwxyz'' ''ABCDEFGHIJKLMNOPQRSTUVWXYZ'') c of
        Some d \<Rightarrow> d | None \<Rightarrow> c)"

definition lower_char :: "char \<Rightarrow> char" where
  "lower_char c =
     (case map_of (zip ''ABCDEFGHIJKLMNOPQRSTUVWXYZ'' ''abcdefghijklmnopqrstuvwxyz'') c of
        Some d \<Rightarrow> d | None \<Rightarrow> c)"

definition upper :: "string \<Rightarrow> string" where
  "upper s = map upper_char s"

definition lower :: "string \<Rightarrow> string" where
  "lower s = map lower_char s"

text \<open>\<^verbatim>\<open>s.endswith(suf)\<close>.\<close>

definition endswith :: "string \<Rightarrow> string \<Rightarrow> bool" where
  "endswith s suf = (length suf \<le> length s \<and> drop (length s - length suf) s = suf)"

text \<open>\<^verbatim>\<open>key.split(".")[0]\<close>: the text before the first dot, the whole key when it has none.\<close>

definition split_dot_first :: "string \<Rightarrow> string" where
  "split_dot_first key = takeWhile (\<lambda>c. c \<noteq> CHR ''.'') key"

text \<open>
  \<^verbatim>\<open>s.strip()\<close>: white space is removed at both ends. The white-space characters of
  Python below code point 128 are the codes 9 to 13, 28 to 32.
\<close>

definition isspace :: "char \<Rightarrow> bool" where
  "isspace c = (let n = (of_char c :: nat) in (9 \<le> n \<and> n \<le> 13) \<or> (28 \<le> n \<and> n \<le> 32))"

definition strip :: "string \<Rightarrow> string" where
  "strip s = rev (dropWhile isspace (rev (dropWhile isspace s)))"

text \<open>Decimal text of an integer, as \<^verbatim>\<open>str\<close> writes it.\<close>

definition digit_char :: "nat \<Rightarrow> char" where
  "digit_char d = ''0123456789'' ! (d mod 10)"

fun str_nat :: "nat \<Rightarrow> string" where
  "str_nat n = (if n < 10 then [digit_char n] else str_nat (n div 10) @ [digit_char n])"

definition str_int :: "int \<Rightarrow> string" where
  "str_int i = (if i < 0 then CHR ''-'' # str_nat (nat (- i)) else str_nat (nat i))"

text \<open>
  A value of the parsed configuration, as far as the program looks at it: it tests
  \<^verbatim>\<open>isinstance(value, bool)\<close>, the truth of a boolean, and formats a port with
  \<^verbatim>\<open>str\<close>. A float, array or object is carried as the text \<^verbatim>\<open>str\<close> gives for it
  (\<open>JOther\<close>); floating-point formatting is not modelled.
\<close>

datatype json = JNull | JBool bool | JInt int | JStr string | JOther string

fun isinstance_bool :: "json \<Rightarrow> bool" where
  "isinstance_bool (JBool b) = True"
| "isinstance_bool v = False"

fun truthy_bool :: "json \<Rightarrow> bool" where
  "truthy_bool (JBool b) = b"
| "truthy_bool v = False"

fun py_str :: "json \<Rightarrow> string" where
  "py_str JNull = ''None''"
| "py_str (JBool b) = (if b then ''True'' else ''False'')"
| "py_str (JInt i) = str_int i"
| "py_str (JStr s) = s"
| "py_str (JOther t) = t"

section \<open>parse_config\<close>

text \<open>
  What \<^verbatim>\<open>json.load\<close> gives inside the \<^verbatim>\<open>try\<close>: a dictionary (its items in insertion
  order, the keys pairwise distinct), another JSON value (named by its Python type, on
  which \<^verbatim>\<open>.items()\<close> raises AttributeError), a \<^verbatim>\<open>JSONDecodeError\<close> with its message, or
  any other \<^verbatim>\<open>Exception\<close> of \<^verbatim>\<open>open\<close> or \<^verbatim>\<open>json.load\<close> with its message.
\<close>

datatype load_result =
    Dict "(string \<times> json) list"
  | Non_dict string
  | JSONDecodeError string
  | Other_exception string

text \<open>The file at the path: absent (\<^verbatim>\<open>os.path.exists\<close> is false) or present.\<close>

datatype config_file = Missing | Present load_result

text \<open>\<^verbatim>\<open>config.get(port_key, "N/A")\<close>, formatted into the line.\<close>

definition get_port :: "(string \<times> json) list \<Rightarrow> string \<Rightarrow> string" where
  "get_port config port_key =
     (case map_of config port_key of Some v \<Rightarrow> py_str v | None \<Rightarrow> ''N/A'')"

text \<open>
  The \<^verbatim>\<open>for key, value in config.items()\<close> loop; \<open>active_services\<close> is the list built
  so far, each match appended at its end.
\<close>

fun collect_services ::
  "(string \<times> json) list \<Rightarrow> (string \<times> json) list \<Rightarrow> string list \<Rightarrow> string list" where
  "collect_services config [] active_services = active_services"
| "collect_services config ((key, value) # items) active_services =
     (if isinstance_bool value \<and> endswith key ''.enabled'' \<and> truthy_bool value then
        (let service_name = upper (split_dot_first key);
             port_key = lower service_name @ ''.port'';
             port = get_port config port_key
         in collect_services config items
              (active_services @ [service_name @ '' on Port '' @ port]))
      else collect_services config items active_services)"

definition attribute_error :: "string \<Rightarrow> string" where
  "attribute_error ty = [CHR 0x27] @ ty @ [CHR 0x27] @ '' object has no attribute '' @
     [CHR 0x27] @ ''items'' @ [CHR 0x27]"

fun parse_config :: "config_file \<Rightarrow> string list" where
  "parse_config Missing = [''Error: Config file not found'']"
| "parse_config (Present (Dict config)) =
     (let active_services = collect_services config config []
      in if active_services = [] then [''No active services found''] else active_services)"
| "parse_config (Present (JSONDecodeError e)) = [''Error: Invalid JSON ('' @ e @ '')'']"
| "parse_config (Present (Other_exception e)) = [''Error: '' @ e]"
| "parse_config (Present (Non_dict ty)) = [''Error: '' @ attribute_error ty]"

section \<open>check_honeypot_status\<close>

text \<open>
  What \<^verbatim>\<open>subprocess.run\<close> does: it completes with a return code and the text of the
  standard output, or it raises an \<^verbatim>\<open>Exception\<close>, carried as the text of \<^verbatim>\<open>str(e)\<close>.
  The handler of the function is \<^verbatim>\<open>except Exception\<close>; a keyboard interrupt is not an
  \<^verbatim>\<open>Exception\<close> and belongs to the loop, below.
\<close>

datatype run_result = Completed int string | Run_raised string

fun check_honeypot_status :: "run_result \<Rightarrow> string" where
  "check_honeypot_status (Completed returncode stdout) =
     (if returncode = 0 then ''Active''
      else if strip stdout = ''inactive'' then ''Inactive''
      else ''Unknown status ('' @ strip stdout @ '')'')"
| "check_honeypot_status (Run_raised e) = ''Error checking status ('' @ e @ '')''"

section \<open>display_on_epaper\<close>

text \<open>
  The panel is known by its two dimensions. The four fonts are named as in the source.
  Font measurement is the library's: \<open>bottom f s\<close> stands for
  \<^verbatim>\<open>draw.textbbox((0, 0), s, font=f)[3]\<close> and is a parameter of the layout.
\<close>

record epd =
  width :: int
  height :: int

datatype font = Font_title | Font_status | Font_heading | Font_services

text \<open>The calls made on the panel and on the canvas, in the order of the source.\<close>

datatype draw_op =
    Init
  | Clear
  | New_image int int
  | Draw_text int int string font
  | Display
  | Sleep

definition line_spacing :: int where
  "line_spacing = 5"

definition extra_spacing_after_status :: int where
  "extra_spacing_after_status = 10"

definition title_height :: "(font \<Rightarrow> string \<Rightarrow> int) \<Rightarrow> int" where
  "title_height bottom = bottom Font_title ''Not a Honeypot''"

definition status_height :: "(font \<Rightarrow> string \<Rightarrow> int) \<Rightarrow> string \<Rightarrow> int" where
  "status_height bottom status = bottom Font_status (''Status: '' @ status)"

definition heading_height :: "(font \<Rightarrow> string \<Rightarrow> int) \<Rightarrow> int" where
  "heading_height bottom = bottom Font_heading ''Listening for:''"

definition services_height :: "(font \<Rightarrow> string \<Rightarrow> int) \<Rightarrow> string list \<Rightarrow> int" where
  "services_height bottom services =
     int (length services) * (bottom Font_services ''A'' + line_spacing)"

definition total_text_height ::
  "(font \<Rightarrow> string \<Rightarrow> int) \<Rightarrow> string \<Rightarrow> string list \<Rightarrow> int" where
  "total_text_height bottom status services =
     title_height bottom + status_height bottom status + heading_height bottom
       + services_height bottom services + (line_spacing * 3) + extra_spacing_after_status"

definition start_y ::
  "(font \<Rightarrow> string \<Rightarrow> int) \<Rightarrow> epd \<Rightarrow> string \<Rightarrow> string list \<Rightarrow> int" where
  "start_y bottom e status services =
     max 0 ((width e - total_text_height bottom status services) div 2)"

text \<open>
  The loop \<^verbatim>\<open>for line in services[:8]\<close>, started with the slice: it draws the line at
  \<open>y\<close> and moves \<open>y\<close> down by the measured height of that line and the spacing. It
  gives the drawing calls and the final \<open>y\<close>.
\<close>

fun draw_services ::
  "(font \<Rightarrow> string \<Rightarrow> int) \<Rightarrow> int \<Rightarrow> string list \<Rightarrow> draw_op list \<times> int" where
  "draw_services bottom y [] = ([], y)"
| "draw_services bottom y (line # rest) =
     (let (ops, y') = draw_services bottom (y + (bottom Font_services line + line_spacing)) rest
      in (Draw_text 10 y line Font_services # ops, y'))"

text \<open>The text block: the drawing calls and the value of \<open>y\<close> below the last line.\<close>

definition draw_block ::
  "(font \<Rightarrow> string \<Rightarrow> int) \<Rightarrow> epd \<Rightarrow> string \<Rightarrow> string list \<Rightarrow> draw_op list \<times> int" where
  "draw_block bottom e status services =
     (let y0 = start_y bottom e status services;
          y1 = y0 + (title_height bottom + line_spacing);
          y2 = y1 + (status_height bottom status + line_spacing + extra_spacing_after_status);
          y3 = y2 + (heading_height bottom + line_spacing);
          (ops, y4) = draw_services bottom y3 (take 8 services)
      in ([Draw_text 10 y0 ''Not a Honeypot'' Font_title,
           Draw_text 10 y1 status Font_status,
           Draw_text 10 y2 ''Listening for:'' Font_heading] @ ops, y4))"

definition display_on_epaper ::
  "(font \<Rightarrow> string \<Rightarrow> int) \<Rightarrow> epd \<Rightarrow> string \<Rightarrow> string list \<Rightarrow> draw_op list" where
  "display_on_epaper bottom e status services =
     [Init, Clear, New_image (height e) (width e)]
       @ fst (draw_block bottom e status services) @ [Display, Sleep]"

section \<open>main\<close>

text \<open>
  What can leave the \<^verbatim>\<open>try\<close> block of \<^verbatim>\<open>main\<close>: a keyboard interrupt, or an
  \<^verbatim>\<open>Exception\<close> with its message.
\<close>

datatype exn = KeyboardInterrupt | Exception string

text \<open>The two variables kept across iterations; \<open>None\<close> is Python's \<^verbatim>\<open>None\<close>.\<close>

record snapshot =
  last_status :: "string option"
  last_services :: "string list option"

definition initial :: snapshot where
  "initial = \<lparr>last_status = None, last_services = None\<rparr>"

text \<open>
  What one iteration meets: whether a keyboard interrupt arrives while the status and
  the configuration are collected, the result of the status query, the configuration
  file, what the call of \<^verbatim>\<open>display_on_epaper\<close> raises (a missing font, a failure of the
  panel, an interrupt) if it is called, and what \<^verbatim>\<open>time.sleep\<close> raises.
\<close>

record tick_env =
  interrupted :: bool
  query :: run_result
  config_at_path :: config_file
  render_raises :: "exn option"
  sleep_raises :: "exn option"

text \<open>What the program does that can be seen from outside.\<close>

datatype event =
    Print string
  | Render string "string list"
  | Module_exit

record tick_result =
  emitted :: "event list"
  snap :: snapshot
  raised :: "exn option"

text \<open>The body of \<^verbatim>\<open>while True\<close>, once.\<close>

definition tick :: "snapshot \<Rightarrow> tick_env \<Rightarrow> tick_result" where
  "tick s env =
     (if interrupted env then \<lparr>emitted = [], snap = s, raised = Some KeyboardInterrupt\<rparr>
      else
        let honeypot_status = check_honeypot_status (query env);
            services = parse_config (config_at_path env)
        in if Some honeypot_status \<noteq> last_status s \<or> Some services \<noteq> last_services s then
             (case render_raises env of
                Some x \<Rightarrow>
                  \<lparr>emitted = [Print ''Changes detected. Refreshing display...'',
                              Render honeypot_status services],
                   snap = s, raised = Some x\<rparr>
              | None \<Rightarrow>
                  \<lparr>emitted = [Print ''Changes detected. Refreshing display...'',
                              Render honeypot_status services],
                   snap = \<lparr>last_status = Some honeypot_status, last_services = Some services\<rparr>,
                   raised = sleep_raises env\<rparr>)
           else
             \<lparr>emitted = [Print ''No changes detected. Skipping refresh...''],
              snap = s, raised = sleep_raises env\<rparr>)"

text \<open>The two handlers of \<^verbatim>\<open>main\<close>.\<close>

fun handler :: "exn \<Rightarrow> event list" where
  "handler KeyboardInterrupt = [Print ''Exiting...'', Module_exit]"
| "handler (Exception e) = [Print (''Unexpected error: '' @ e), Module_exit]"

text \<open>
  The loop over the iterations an environment offers. A run that has used them all
  without an exception is still in the loop (\<open>Running\<close>, with its snapshot); a run in
  which an exception left an iteration has gone through a handler and has returned
  from \<^verbatim>\<open>main\<close> (\<open>Exited\<close>).
\<close>

datatype run_state = Running snapshot | Exited

fun loop :: "snapshot \<Rightarrow> tick_env list \<Rightarrow> event list \<times> run_state" where
  "loop s [] = ([], Running s)"
| "loop s (env # envs) =
     (let r = tick s env
      in case raised r of
           Some x \<Rightarrow> (emitted r @ handler x, Exited)
         | None \<Rightarrow> (let (evs, st) = loop (snap r) envs in (emitted r @ evs, st)))"

definition main :: "tick_env list \<Rightarrow> event list \<times> run_state" where
  "main envs = loop initial envs"

section \<open>What the specification says, in its own words\<close>

text \<open>
  The enabled-service rule: a key ending in \<^verbatim>\<open>.enabled\<close> whose value is the boolean
  true.
\<close>

definition spec_enabled :: "string \<times> json \<Rightarrow> bool" where
  "spec_enabled kv = (endswith (fst kv) ''.enabled'' \<and> snd kv = JBool True)"

text \<open>
  The line of such a key: the part before the first dot in upper case, then the value
  of the companion key (that name in lower case, followed by \<^verbatim>\<open>.port\<close>), or
  \<^verbatim>\<open>N/A\<close> when the companion key is absent.
\<close>

definition spec_line :: "(string \<times> json) list \<Rightarrow> string \<Rightarrow> string" where
  "spec_line config key =
     (let service_name = upper (split_dot_first key)
      in service_name @ '' on Port '' @
         (case map_of config (lower service_name @ ''.port'') of
            Some v \<Rightarrow> py_str v | None \<Rightarrow> ''N/A''))"

definition spec_lines :: "(string \<times> json) list \<Rightarrow> string list" where
  "spec_lines config = map (spec_line config) (map fst (filter spec_enabled config))"

text \<open>
  The height of the text block as drawn: the measured height of every drawn line (the
  title, the status as it is drawn, the heading, the first eight services), the spacing
  of 5 for each of these lines, and the gap of 10 after the status.
\<close>

definition spec_block_height ::
  "(font \<Rightarrow> string \<Rightarrow> int) \<Rightarrow> string \<Rightarrow> string list \<Rightarrow> int" where
  "spec_block_height bottom status services =
     bottom Font_title ''Not a Honeypot'' + bottom Font_status status
       + bottom Font_heading ''Listening for:''
       + sum_list (map (bottom Font_services) (take 8 services))
       + 5 * int (3 + length (take 8 services)) + 10"

section \<open>Reading a trace\<close>

text \<open>The texts, and the vertical positions, of the drawing calls made with a font.\<close>

fun drawn_text :: "font \<Rightarrow> draw_op \<Rightarrow> string list" where
  "drawn_text f (Draw_text x y t g) = (if g = f then [t] else [])"
| "drawn_text f other = []"

definition drawn_with :: "font \<Rightarrow> draw_op list \<Rightarrow> string list" where
  "drawn_with f ops = concat (map (drawn_text f) ops)"

fun drawn_y :: "font \<Rightarrow> draw_op \<Rightarrow> int list" where
  "drawn_y f (Draw_text x y t g) = (if g = f then [y] else [])"
| "drawn_y f other = []"

definition ys_with :: "font \<Rightarrow> draw_op list \<Rightarrow> int list" where
  "ys_with f ops = concat (map (drawn_y f) ops)"

text \<open>The calls of \<^verbatim>\<open>display_on_epaper\<close> in a list of events, with their arguments.\<close>

fun render_call :: "event \<Rightarrow> (string \<times> string list) list" where
  "render_call (Render status services) = [(status, services)]"
| "render_call other = []"

definition renders :: "event list \<Rightarrow> (string \<times> string list) list" where
  "renders evs = concat (map render_call evs)"

text \<open>The pair an iteration computes, and its comparison with the snapshot.\<close>

definition polled :: "tick_env \<Rightarrow> string \<times> string list" where
  "polled env = (check_honeypot_status (query env), parse_config (config_at_path env))"

definition differs :: "snapshot \<Rightarrow> string \<times> string list \<Rightarrow> bool" where
  "differs s p = ((Some (fst p), Some (snd p)) \<noteq> (last_status s, last_services s))"

section \<open>Concrete inputs\<close>

definition ftp_config :: "(string \<times> json) list" where
  "ftp_config = [(''ftp.enabled'', JBool True), (''ftp.port'', JInt 21),
                 (''http.enabled'', JBool False)]"

definition nameless_config :: "(string \<times> json) list" where
  "nameless_config = [(''.enabled'', JBool True), (''.port'', JInt 8080)]"

text \<open>
  The 2.7 inch panel, a wider panel, and a font measure that gives each font its pixel
  size.
\<close>

definition panel_2in7 :: epd where
  "panel_2in7 = \<lparr>width = 176, height = 264\<rparr>"

definition wide_panel :: epd where
  "wide_panel = \<lparr>width = 400, height = 300\<rparr>"

definition fixed_heights :: "font \<Rightarrow> string \<Rightarrow> int" where
  "fixed_heights f s =
     (case f of Font_title \<Rightarrow> 20 | Font_status \<Rightarrow> 14 | Font_heading \<Rightarrow> 16
      | Font_services \<Rightarrow> 14)"

definition nine_services :: "string list" where
  "nine_services = [''FTP on Port 21'', ''SSH on Port 22'', ''TELNET on Port 23'',
     ''HTTP on Port 80'', ''HTTPS on Port 443'', ''MYSQL on Port 3306'',
     ''RDP on Port 3389'', ''VNC on Port 5900'', ''REDIS on Port 6379'']"

text \<open>
  Three iterations: the daemon active and the configuration file absent; the same with
  \<^verbatim>\<open>Ctrl-C\<close> during the sleep; the daemon inactive and a font file that cannot be
  opened.
\<close>

definition env_active :: tick_env where
  "env_active = \<lparr>interrupted = False, query = Completed 0 (''active'' @ [CHR 0x0A]),
     config_at_path = Missing, render_raises = None, sleep_raises = None\<rparr>"

definition env_ctrl_c :: tick_env where
  "env_ctrl_c = \<lparr>interrupted = False, query = Completed 0 (''active'' @ [CHR 0x0A]),
     config_at_path = Missing, render_raises = None,
     sleep_raises = Some KeyboardInterrupt\<rparr>"

definition env_no_font :: tick_env where
  "env_no_font = \<lparr>interrupted = False, query = Completed 3 (''inactive'' @ [CHR 0x0A]),
     config_at_path = Missing, render_raises = Some (Exception ''cannot open resource''),
     sleep_raises = None\<rparr>"

section \<open>Lemmas\<close>

subsection \<open>The loop of parse_config\<close>

lemma bool_true_iff: "(isinstance_bool v \<and> truthy_bool v) = (v = JBool True)"
  by (cases v) auto

lemma collect_services_eq:
  "collect_services config items acc =
     acc @ map (spec_line config) (map fst (filter spec_enabled items))"
proof (induction items arbitrary: acc)
  case Nil
  show ?case by simp
next
  case (Cons kv items)
  obtain key "value" where kv: "kv = (key, value)" by (cases kv)
  have m: "(isinstance_bool value \<and> endswith key ''.enabled'' \<and> truthy_bool value)
             = spec_enabled (key, value)"
    using bool_true_iff [of "value"] by (auto simp: spec_enabled_def)
  show ?case
    unfolding kv collect_services.simps m
    by (simp add: Cons.IH spec_line_def get_port_def Let_def)
qed

subsection \<open>The drawing loop\<close>

lemma draw_services_fst:
  "fst (draw_services bottom y (l # ls)) =
     Draw_text 10 y l Font_services
       # fst (draw_services bottom (y + (bottom Font_services l + line_spacing)) ls)"
  by (simp add: case_prod_beta)

lemma draw_services_snd:
  "snd (draw_services bottom y (l # ls)) =
     snd (draw_services bottom (y + (bottom Font_services l + line_spacing)) ls)"
  by (simp add: case_prod_beta)

lemma draw_services_texts:
  "drawn_with Font_services (fst (draw_services bottom y ls)) = ls"
proof (induction ls arbitrary: y)
  case Nil
  show ?case by (simp add: drawn_with_def)
next
  case (Cons l ls)
  show ?case
    using Cons.IH [of "y + (bottom Font_services l + line_spacing)"]
    by (simp add: draw_services_fst drawn_with_def del: draw_services.simps)
qed

lemma draw_services_status:
  "concat (map (drawn_text Font_status) (fst (draw_services bottom y ls))) = []"
proof (induction ls arbitrary: y)
  case Nil
  show ?case by simp
next
  case (Cons l ls)
  show ?case
    using Cons.IH [of "y + (bottom Font_services l + line_spacing)"]
    by (simp add: draw_services_fst del: draw_services.simps)
qed

lemma draw_services_lower:
  assumes "\<forall>s. 0 \<le> bottom Font_services s"
  shows "\<forall>v \<in> set (ys_with Font_services (fst (draw_services bottom y ls))). y \<le> v"
proof (induction ls arbitrary: y)
  case Nil
  show ?case by (simp add: ys_with_def)
next
  case (Cons l ls)
  have "0 \<le> bottom Font_services l" using assms by simp
  then have step: "y \<le> y + (bottom Font_services l + line_spacing)"
    by (simp add: line_spacing_def)
  show ?case
    using Cons.IH [of "y + (bottom Font_services l + line_spacing)"] step
    by (fastforce simp: draw_services_fst ys_with_def simp del: draw_services.simps)
qed

lemma draw_services_increasing:
  assumes "\<forall>s. 0 \<le> bottom Font_services s"
  shows "sorted_wrt (<) (ys_with Font_services (fst (draw_services bottom y ls)))"
proof (induction ls arbitrary: y)
  case Nil
  show ?case by (simp add: ys_with_def)
next
  case (Cons l ls)
  have "0 \<le> bottom Font_services l" using assms by simp
  then have step: "y < y + (bottom Font_services l + line_spacing)"
    by (simp add: line_spacing_def)
  have low: "\<forall>v \<in> set (ys_with Font_services
      (fst (draw_services bottom (y + (bottom Font_services l + line_spacing)) ls))).
        y + (bottom Font_services l + line_spacing) \<le> v"
    using draw_services_lower [of bottom] assms by blast
  show ?case
    using Cons.IH [of "y + (bottom Font_services l + line_spacing)"] step low
    by (fastforce simp: draw_services_fst ys_with_def simp del: draw_services.simps)
qed

lemma display_services_texts:
  "drawn_with Font_services (display_on_epaper bottom e status services) = take 8 services"
  using draw_services_texts [of bottom _ "take 8 services"]
  by (simp add: display_on_epaper_def draw_block_def Let_def drawn_with_def case_prod_beta)

lemma status_drawn_verbatim:
  "drawn_with Font_status (display_on_epaper bottom e status services) = [status]"
  by (simp add: display_on_epaper_def draw_block_def Let_def drawn_with_def case_prod_beta
      draw_services_status)

lemma display_services_ys:
  "ys_with Font_services (display_on_epaper bottom e status services) =
     ys_with Font_services (fst (draw_services bottom
        (start_y bottom e status services + (title_height bottom + line_spacing)
          + (status_height bottom status + line_spacing + extra_spacing_after_status)
          + (heading_height bottom + line_spacing)) (take 8 services)))"
  by (simp add: display_on_epaper_def draw_block_def Let_def ys_with_def case_prod_beta)

lemma sum_list_const:
  "\<forall>x \<in> set xs. f x = c \<Longrightarrow> sum_list (map f xs) = int (length xs) * (c::int)"
  by (induction xs) (simp_all add: algebra_simps)

lemma total_height_agrees:
  assumes "length services \<le> 8"
    and "\<forall>l \<in> set services. bottom Font_services l = bottom Font_services ''A''"
    and "bottom Font_status (''Status: '' @ status) = bottom Font_status status"
  shows "total_text_height bottom status services = spec_block_height bottom status services"
  using assms sum_list_const [of services "bottom Font_services" "bottom Font_services ''A''"]
  by (simp add: total_text_height_def spec_block_height_def title_height_def
      status_height_def heading_height_def services_height_def line_spacing_def
      extra_spacing_after_status_def algebra_simps)

lemma draw_services_end:
  "snd (draw_services bottom y ls) =
     y + sum_list (map (\<lambda>l. bottom Font_services l + line_spacing) ls)"
proof (induction ls arbitrary: y)
  case Nil
  show ?case by simp
next
  case (Cons l ls)
  show ?case
    using Cons.IH [of "y + (bottom Font_services l + line_spacing)"]
    by (simp add: draw_services_snd del: draw_services.simps)
qed

lemma draw_block_end:
  "snd (draw_block bottom e status services) =
     start_y bottom e status services + title_height bottom + status_height bottom status
       + heading_height bottom
       + sum_list (map (\<lambda>l. bottom Font_services l + line_spacing) (take 8 services))
       + line_spacing * 3 + extra_spacing_after_status"
  by (simp add: draw_block_def Let_def case_prod_beta draw_services_end)

lemma wide_panel_not_centred:
  "start_y fixed_heights wide_panel ''Active'' nine_services = 77
   \<and> snd (draw_block fixed_heights wide_panel ''Active'' nine_services) = 304
   \<and> max 0 ((width wide_panel - spec_block_height fixed_heights ''Active'' nine_services) div 2)
       = 86"
  by (simp add: draw_block_end start_y_def total_text_height_def
      spec_block_height_def title_height_def status_height_def heading_height_def
      services_height_def line_spacing_def extra_spacing_after_status_def fixed_heights_def
      wide_panel_def nine_services_def)

subsection \<open>One iteration, and the run\<close>

lemma renders_tick:
  "\<not> interrupted env \<Longrightarrow>
     renders (emitted (tick s env)) = (if differs s (polled env) then [polled env] else [])"
  by (simp add: tick_def renders_def polled_def differs_def Let_def split: option.split)

lemma snap_tick_rendered:
  "\<not> interrupted env \<Longrightarrow> differs s (polled env) \<Longrightarrow> render_raises env = None \<Longrightarrow>
     snap (tick s env) =
       \<lparr>last_status = Some (fst (polled env)), last_services = Some (snd (polled env))\<rparr>"
  by (simp add: tick_def polled_def differs_def Let_def)

lemma differs_initial: "differs initial p"
  by (simp add: differs_def initial_def)

lemma not_differs_after:
  "\<not> differs \<lparr>last_status = Some (fst p), last_services = Some (snd p)\<rparr> p"
  by (simp add: differs_def)

lemma snap_tick_cases:
  "snap (tick s env) = s \<or>
   (\<not> interrupted env \<and> differs s (polled env) \<and> render_raises env = None \<and>
    snap (tick s env) =
       \<lparr>last_status = Some (fst (polled env)), last_services = Some (snd (polled env))\<rparr>)"
  by (simp add: tick_def polled_def differs_def Let_def split: option.split)

lemma renders_append: "renders (xs @ ys) = renders xs @ renders ys"
  by (simp add: renders_def)

lemma renders_handler: "renders (handler x) = []"
  by (cases x) (simp_all add: renders_def)

lemma loop_two:
  "fst (loop s [e1, e2]) =
     (case raised (tick s e1) of
        Some x \<Rightarrow> emitted (tick s e1) @ handler x
      | None \<Rightarrow> emitted (tick s e1) @
          (case raised (tick (snap (tick s e1)) e2) of
             Some y \<Rightarrow> emitted (tick (snap (tick s e1)) e2) @ handler y
           | None \<Rightarrow> emitted (tick (snap (tick s e1)) e2)))"
  by (simp add: Let_def split: option.split)

lemma raised_none_render:
  "raised (tick s env) = None \<Longrightarrow> \<not> interrupted env \<and>
     (differs s (polled env) \<longrightarrow> render_raises env = None)"
  by (auto simp: tick_def polled_def differs_def Let_def split: option.splits if_splits)

lemma two_ticks_one_render:
  assumes "\<not> interrupted e1" "\<not> interrupted e2" "polled e2 = polled e1"
  shows "length (renders (fst (loop s [e1, e2]))) \<le> 1"
proof (cases "raised (tick s e1)")
  case (Some x)
  then show ?thesis
    using assms(1) unfolding loop_two
    by (simp add: renders_append renders_handler renders_tick)
next
  case None
  have r1: "renders (emitted (tick s e1)) = (if differs s (polled e1) then [polled e1] else [])"
    using assms(1) by (rule renders_tick)
  have r2: "renders (emitted (tick (snap (tick s e1)) e2)) =
      (if differs (snap (tick s e1)) (polled e1) then [polled e1] else [])"
    using renders_tick [OF assms(2), of "snap (tick s e1)"] assms(3) by simp
  have second: "differs s (polled e1) \<Longrightarrow> \<not> differs (snap (tick s e1)) (polled e1)"
    using raised_none_render [OF None] snap_tick_rendered [of e1 s] not_differs_after [of "polled e1"]
    by simp
  have same: "\<not> differs s (polled e1) \<Longrightarrow> snap (tick s e1) = s"
    using snap_tick_cases [of s e1] by auto
  show ?thesis
    using None r1 r2 second same unfolding loop_two
    by (auto simp: renders_append renders_handler split: option.split)
qed

lemma tick_no_exit: "count_list (emitted (tick s env)) Module_exit = 0"
  by (simp add: tick_def Let_def split: option.split)

lemma handler_one_exit: "count_list (handler x) Module_exit = 1 \<and> last (handler x) = Module_exit"
  by (cases x) simp_all

lemma handler_nonempty: "handler x \<noteq> []"
  by (cases x) simp_all

lemma count_list_append: "count_list (xs @ ys) a = count_list xs a + count_list ys a"
  by (induction xs) simp_all

lemma loop_cons_raised:
  "raised (tick s env) = Some x \<Longrightarrow>
     loop s (env # envs) = (emitted (tick s env) @ handler x, Exited)"
  by (simp add: Let_def)

lemma loop_cons_continue:
  "raised (tick s env) = None \<Longrightarrow>
     loop s (env # envs) =
       (emitted (tick s env) @ fst (loop (snap (tick s env)) envs),
        snd (loop (snap (tick s env)) envs))"
  by (simp add: Let_def case_prod_beta)

lemma loop_append_running:
  "loop s pre = (tr, Running s') \<Longrightarrow>
     loop s (pre @ rest) = (tr @ fst (loop s' rest), snd (loop s' rest))"
proof (induction pre arbitrary: s tr)
  case Nil
  then show ?case by simp
next
  case (Cons env pre)
  show ?case
  proof (cases "raised (tick s env)")
    case (Some x)
    then show ?thesis using Cons.prems by (simp add: loop_cons_raised del: loop.simps)
  next
    case None
    have run: "loop (snap (tick s env)) pre =
        (fst (loop (snap (tick s env)) pre), Running s')"
      using Cons.prems None by (simp add: loop_cons_continue prod_eq_iff del: loop.simps)
    have tr: "tr = emitted (tick s env) @ fst (loop (snap (tick s env)) pre)"
      using Cons.prems None by (simp add: loop_cons_continue del: loop.simps)
    show ?thesis
      using Cons.IH [OF run] None tr
      by (simp add: loop_cons_continue del: loop.simps)
  qed
qed

lemma loop_running_no_exit:
  "loop s pre = (tr, Running s') \<Longrightarrow> count_list tr Module_exit = 0"
proof (induction pre arbitrary: s tr)
  case Nil
  then show ?case by simp
next
  case (Cons env pre)
  show ?case
  proof (cases "raised (tick s env)")
    case (Some x)
    then show ?thesis using Cons.prems by (simp add: loop_cons_raised del: loop.simps)
  next
    case None
    have run: "loop (snap (tick s env)) pre =
        (fst (loop (snap (tick s env)) pre), Running s')"
      using Cons.prems None by (simp add: loop_cons_continue prod_eq_iff del: loop.simps)
    have tr: "tr = emitted (tick s env) @ fst (loop (snap (tick s env)) pre)"
      using Cons.prems None by (simp add: loop_cons_continue del: loop.simps)
    show ?thesis
      using Cons.IH [OF run] tr by (simp add: count_list_append tick_no_exit)
  qed
qed

section \<open>The claims\<close>

text \<open>
  Claim C1. In an iteration that computes its pair, \<^verbatim>\<open>display_on_epaper\<close> is called
  exactly when the pair (status, services) differs from the snapshot, and with that
  pair; from the initial snapshot it is always called; when the call returns, the
  snapshot is the new pair; two iterations in a row that compute the same pair make
  at most one call.
\<close>

theorem render_iff_changed:
  "(\<not> interrupted env \<longrightarrow>
      renders (emitted (tick s env)) = (if differs s (polled env) then [polled env] else [])
    \<and> renders (emitted (tick initial env)) = [polled env]
    \<and> (differs s (polled env) \<and> render_raises env = None \<longrightarrow>
         snap (tick s env) =
           \<lparr>last_status = Some (fst (polled env)), last_services = Some (snd (polled env))\<rparr>))
   \<and> (\<not> interrupted env \<and> \<not> interrupted env' \<and> polled env' = polled env \<longrightarrow>
        length (renders (fst (loop s [env, env']))) \<le> 1)"
  using renders_tick [of env s] renders_tick [of env initial] differs_initial [of "polled env"]
    snap_tick_rendered [of env s] two_ticks_one_render [of env env' s]
  by simp

theorem render_iff_changed_witness:
  "\<not> interrupted env_active
   \<and> differs initial (polled env_active) \<and> render_raises env_active = None
   \<and> polled env_active = (''Active'', [''Error: Config file not found''])
   \<and> renders (emitted (tick initial env_active))
        = [(''Active'', [''Error: Config file not found''])]
   \<and> snap (tick initial env_active)
        = \<lparr>last_status = Some ''Active'',
            last_services = Some [''Error: Config file not found'']\<rparr>
   \<and> length (renders (fst (loop initial [env_active, env_active]))) \<le> 1"
  using render_iff_changed [of env_active initial env_active]
  by (simp add: env_active_def polled_def differs_def initial_def)

text \<open>
  Claim C2. For a parsed dictionary the result is made of one line for each key that
  ends in \<^verbatim>\<open>.enabled\<close> and has the value true, in the order of the keys: the part of
  the key before the first dot in upper case, \<^verbatim>\<open>on Port\<close>, and the value of the
  companion key or \<^verbatim>\<open>N/A\<close>; no other key gives a line. (With no such key the result
  is the sentinel line.)
\<close>

theorem parse_config_lines:
  "parse_config (Present (Dict config)) =
     (if spec_lines config = [] then [''No active services found''] else spec_lines config)"
  by (simp add: collect_services_eq spec_lines_def Let_def)

theorem parse_config_lines_witness:
  "parse_config (Present (Dict ftp_config)) = [''FTP on Port 21'']
   \<and> spec_lines ftp_config = [''FTP on Port 21'']"
  using parse_config_lines [of ftp_config]
  by (simp add: ftp_config_def spec_lines_def spec_line_def spec_enabled_def endswith_def
      upper_def lower_def upper_char_def lower_char_def split_dot_first_def str_int_def
      digit_char_def)

text \<open>
  Claim C3. The height that \<^verbatim>\<open>display_on_epaper\<close> uses to centre the block is
  meant to be the height of the lines it draws. It is computed from the whole list of
  services, from the height of the letter A for each of them, and from the status with
  the prefix \<^verbatim>\<open>Status:\<close>, while the drawing loop takes the first eight services and
  the measured height of each line, and the status is drawn without prefix. With nine
  services, on the 2.7 inch panel and with constant font heights, the computed height
  is 246 where the eleven drawn lines, their spacings and the gap take 227.
\<close>

theorem total_height_counts_undrawn_lines:
  "total_text_height fixed_heights ''Active'' nine_services = 246
   \<and> spec_block_height fixed_heights ''Active'' nine_services = 227
   \<and> start_y fixed_heights panel_2in7 ''Active'' nine_services = 0
   \<and> snd (draw_block fixed_heights panel_2in7 ''Active'' nine_services) = 227
   \<and> length (drawn_with Font_services
        (display_on_epaper fixed_heights panel_2in7 ''Active'' nine_services)) = 8
   \<and> drawn_with Font_status
        (display_on_epaper fixed_heights panel_2in7 ''Active'' nine_services) = [''Active'']"
  by (simp add: draw_block_end display_services_texts status_drawn_verbatim start_y_def total_text_height_def
      spec_block_height_def title_height_def status_height_def heading_height_def
      services_height_def line_spacing_def extra_spacing_after_status_def fixed_heights_def
      panel_2in7_def nine_services_def)

text \<open>
  Claim C4. \<^verbatim>\<open>check_honeypot_status\<close> gives a string for every outcome of the query:
  \<^verbatim>\<open>Active\<close> for return code 0; \<^verbatim>\<open>Inactive\<close> for another return code when the
  stripped output is \<^verbatim>\<open>inactive\<close>; \<^verbatim>\<open>Unknown status (...)\<close> with the stripped output
  for any other; \<^verbatim>\<open>Error checking status (...)\<close> with the message when the query
  raised.
\<close>

theorem check_honeypot_status_cases:
  "check_honeypot_status (Completed 0 out) = ''Active''
   \<and> (rc \<noteq> 0 \<and> strip out = ''inactive'' \<longrightarrow>
        check_honeypot_status (Completed rc out) = ''Inactive'')
   \<and> (rc \<noteq> 0 \<and> strip out \<noteq> ''inactive'' \<longrightarrow>
        check_honeypot_status (Completed rc out) = ''Unknown status ('' @ strip out @ '')'')
   \<and> check_honeypot_status (Run_raised m) = ''Error checking status ('' @ m @ '')''"
  by simp

theorem check_honeypot_status_cases_witness:
  "(3::int) \<noteq> 0 \<and> strip (''inactive'' @ [CHR 0x0A]) = ''inactive''
   \<and> check_honeypot_status (Completed 3 (''inactive'' @ [CHR 0x0A])) = ''Inactive''
   \<and> strip (''failed'' @ [CHR 0x0A]) \<noteq> ''inactive''
   \<and> check_honeypot_status (Completed 3 (''failed'' @ [CHR 0x0A])) = ''Unknown status (failed)''"
  using check_honeypot_status_cases [of "''inactive'' @ [CHR 0x0A]" 3]
    check_honeypot_status_cases [of "''failed'' @ [CHR 0x0A]" 3]
  by (simp add: strip_def isspace_def)

text \<open>
  Claim C5. \<^verbatim>\<open>parse_config\<close> gives a list in every case: the one line
  \<^verbatim>\<open>Error: Config file not found\<close> when the file is absent, one line that starts
  with \<^verbatim>\<open>Error: Invalid JSON (\<close> when the contents are not JSON, and the one line
  \<^verbatim>\<open>Error:\<close> with the message for any other exception, that of a JSON value
  without \<^verbatim>\<open>items\<close> included.
\<close>

theorem parse_config_errors:
  "parse_config Missing = [''Error: Config file not found'']
   \<and> parse_config (Present (JSONDecodeError m)) = [''Error: Invalid JSON ('' @ m @ '')'']
   \<and> parse_config (Present (Other_exception m)) = [''Error: '' @ m]
   \<and> parse_config (Present (Non_dict ty)) = [''Error: '' @ attribute_error ty]"
  by simp

theorem parse_config_errors_witness:
  "parse_config (Present (JSONDecodeError ''Expecting value: line 1 column 1 (char 0)''))
     = [''Error: Invalid JSON (Expecting value: line 1 column 1 (char 0))'']
   \<and> parse_config (Present (Other_exception ''[Errno 13] Permission denied''))
     = [''Error: [Errno 13] Permission denied'']"
  using parse_config_errors [of "''Expecting value: line 1 column 1 (char 0)''"]
    parse_config_errors [of "''[Errno 13] Permission denied''"]
  by simp

text \<open>
  Claim C6. The result of \<^verbatim>\<open>parse_config\<close> is never empty; for a dictionary with N
  keys that match the enabled-service rule it has N lines when N is at least 1 and is
  the one line \<^verbatim>\<open>No active services found\<close> when N is 0.
\<close>

theorem parse_config_nonempty:
  "parse_config f \<noteq> []
   \<and> (1 \<le> length (filter spec_enabled config) \<longrightarrow>
        length (parse_config (Present (Dict config))) = length (filter spec_enabled config))
   \<and> (length (filter spec_enabled config) = 0 \<longrightarrow>
        parse_config (Present (Dict config)) = [''No active services found''])"
proof -
  have "parse_config f \<noteq> []"
  proof (cases f)
    case Missing
    then show ?thesis by simp
  next
    case (Present r)
    then show ?thesis by (cases r) (simp_all add: Let_def)
  qed
  moreover have "length (spec_lines config) = length (filter spec_enabled config)"
    by (simp add: spec_lines_def)
  ultimately show ?thesis
    by (auto simp: collect_services_eq spec_lines_def Let_def)
qed

theorem parse_config_nonempty_witness:
  "1 \<le> length (filter spec_enabled ftp_config)
   \<and> length (parse_config (Present (Dict ftp_config))) = 1
   \<and> length (filter spec_enabled []) = 0
   \<and> parse_config (Present (Dict [])) = [''No active services found'']
   \<and> parse_config Missing \<noteq> []"
  using parse_config_nonempty [of Missing ftp_config] parse_config_nonempty [of Missing "[]"]
  by (simp add: ftp_config_def spec_enabled_def endswith_def)

text \<open>
  Claim C7. The service lines drawn by \<^verbatim>\<open>display_on_epaper\<close> are the first 8 entries
  of the list, in order, so never more than 8; each is drawn at its own height (the
  positions increase strictly when the measured heights are not negative).
\<close>

theorem at_most_eight_service_lines:
  "drawn_with Font_services (display_on_epaper bottom e status services) = take 8 services
   \<and> length (drawn_with Font_services (display_on_epaper bottom e status services)) \<le> 8
   \<and> ((\<forall>s. 0 \<le> bottom Font_services s) \<longrightarrow>
        sorted_wrt (<) (ys_with Font_services (display_on_epaper bottom e status services)))"
  using draw_services_increasing [of bottom]
  by (simp add: display_services_texts display_services_ys)

theorem at_most_eight_service_lines_witness:
  "(\<forall>s. 0 \<le> fixed_heights Font_services s)
   \<and> drawn_with Font_services
        (display_on_epaper fixed_heights panel_2in7 ''Active'' nine_services)
       = take 8 nine_services
   \<and> ys_with Font_services
        (display_on_epaper fixed_heights panel_2in7 ''Active'' nine_services)
       = [75, 94, 113, 132, 151, 170, 189, 208]"
  using at_most_eight_service_lines [of fixed_heights panel_2in7 "''Active''" nine_services]
  by (simp add: fixed_heights_def panel_2in7_def nine_services_def display_on_epaper_def
      draw_block_def start_y_def total_text_height_def title_height_def status_height_def
      heading_height_def services_height_def line_spacing_def
      extra_spacing_after_status_def ys_with_def)

text \<open>
  Claim C8. When the call of \<^verbatim>\<open>display_on_epaper\<close> raises, the snapshot is the one
  before the iteration and the exception leaves the iteration; and whenever an
  iteration changes the snapshot, the call was made and returned.
\<close>

theorem snapshot_kept_on_render_error:
  "(renders (emitted (tick s env)) \<noteq> [] \<and> render_raises env = Some x \<longrightarrow>
      snap (tick s env) = s \<and> raised (tick s env) = Some x)
   \<and> (snap (tick s env) \<noteq> s \<longrightarrow>
        renders (emitted (tick s env)) \<noteq> [] \<and> render_raises env = None)"
proof -
  have a: "render_raises env = Some x \<Longrightarrow> snap (tick s env) = s"
    using snap_tick_cases [of s env] by auto
  have b: "renders (emitted (tick s env)) \<noteq> [] \<Longrightarrow> render_raises env = Some x \<Longrightarrow>
      raised (tick s env) = Some x"
    by (auto simp: tick_def renders_def Let_def split: if_splits)
  have c: "snap (tick s env) \<noteq> s \<Longrightarrow>
      renders (emitted (tick s env)) \<noteq> [] \<and> render_raises env = None"
    using snap_tick_cases [of s env] renders_tick [of env s] by auto
  show ?thesis using a b c by blast
qed

theorem snapshot_kept_on_render_error_witness:
  "renders (emitted (tick initial env_no_font)) \<noteq> []
   \<and> render_raises env_no_font = Some (Exception ''cannot open resource'')
   \<and> snap (tick initial env_no_font) = initial
   \<and> raised (tick initial env_no_font) = Some (Exception ''cannot open resource'')
   \<and> snap (tick initial env_active) \<noteq> initial
   \<and> renders (emitted (tick initial env_active)) \<noteq> []
   \<and> render_raises env_active = None"
  using snapshot_kept_on_render_error
      [of initial env_no_font "Exception ''cannot open resource''"]
    snapshot_kept_on_render_error [of initial env_active KeyboardInterrupt]
  by (simp add: env_no_font_def env_active_def tick_def renders_def initial_def Let_def)

text \<open>
  Claim C9. When an iteration of a run that is still in the loop raises (a keyboard
  interrupt or an exception), the run ends there: the handler calls the shutdown of
  the driver module, that call is the last event and the only such call of the run,
  and the iterations the environment would still offer are not run.
\<close>

theorem cleanup_once_then_exit:
  assumes "main pre = (tr, Running s')" and "raised (tick s' env) = Some x"
  shows "main (pre @ env # post) = (tr @ emitted (tick s' env) @ handler x, Exited)
         \<and> count_list (fst (main (pre @ env # post))) Module_exit = 1
         \<and> last (fst (main (pre @ env # post))) = Module_exit"
proof -
  have run: "loop initial pre = (tr, Running s')" using assms(1) by (simp add: main_def)
  have eq: "main (pre @ env # post) = (tr @ emitted (tick s' env) @ handler x, Exited)"
    using loop_append_running [OF run, of "env # post"] loop_cons_raised [OF assms(2), of post]
    by (simp add: main_def del: loop.simps)
  have cnt: "count_list (tr @ emitted (tick s' env) @ handler x) Module_exit = 1"
    using loop_running_no_exit [OF run] handler_one_exit [of x]
    by (simp add: count_list_append tick_no_exit)
  have lst: "last (tr @ emitted (tick s' env) @ handler x) = Module_exit"
    using handler_one_exit [of x] handler_nonempty [of x] by simp
  show ?thesis using eq cnt lst by simp
qed


theorem cleanup_once_then_exit_witness:
  "main [env_active]
     = ([Print ''Changes detected. Refreshing display...'',
         Render ''Active'' [''Error: Config file not found'']],
        Running \<lparr>last_status = Some ''Active'',
                 last_services = Some [''Error: Config file not found'']\<rparr>)
   \<and> raised (tick \<lparr>last_status = Some ''Active'',
                    last_services = Some [''Error: Config file not found'']\<rparr> env_ctrl_c)
       = Some KeyboardInterrupt
   \<and> snd (main ([env_active] @ env_ctrl_c # [env_active])) = Exited
   \<and> count_list (fst (main ([env_active] @ env_ctrl_c # [env_active]))) Module_exit = 1
   \<and> raised (tick \<lparr>last_status = Some ''Active'',
                    last_services = Some [''Error: Config file not found'']\<rparr> env_no_font)
       = Some (Exception ''cannot open resource'')
   \<and> snd (main ([env_active] @ env_no_font # [env_active])) = Exited
   \<and> count_list (fst (main ([env_active] @ env_no_font # [env_active]))) Module_exit = 1"
proof -
  let ?s = "\<lparr>last_status = Some ''Active'',
             last_services = Some [''Error: Config file not found'']\<rparr>"
  let ?tr = "[Print ''Changes detected. Refreshing display...'',
              Render ''Active'' [''Error: Config file not found'']]"
  have run: "main [env_active] = (?tr, Running ?s)"
    by (simp add: main_def initial_def env_active_def tick_def Let_def)
  have r1: "raised (tick ?s env_ctrl_c) = Some KeyboardInterrupt"
    by (simp add: env_ctrl_c_def tick_def Let_def)
  have r2: "raised (tick ?s env_no_font) = Some (Exception ''cannot open resource'')"
    by (simp add: env_no_font_def tick_def strip_def isspace_def Let_def)
  show ?thesis
    using run r1 r2 cleanup_once_then_exit [OF run r1, of "[env_active]"]
      cleanup_once_then_exit [OF run r2, of "[env_active]"]
    by (simp add: tick_no_exit)
qed

text \<open>
  Claim C10. A dictionary with the key \<^verbatim>\<open>.enabled\<close> set to true gives the line that
  starts with a space, \<^verbatim>\<open> on Port\<close>, followed by the value of the key \<^verbatim>\<open>.port\<close>, or
  by \<^verbatim>\<open>N/A\<close> when that key is absent.
\<close>

theorem parse_config_empty_prefix:
  assumes "(''.enabled'', JBool True) \<in> set config"
  shows "('' on Port '' @ (case map_of config ''.port'' of Some v \<Rightarrow> py_str v | None \<Rightarrow> ''N/A''))
           \<in> set (parse_config (Present (Dict config)))"
proof -
  have e: "spec_enabled (''.enabled'', JBool True)"
    by (simp add: spec_enabled_def endswith_def)
  have l: "spec_line config ''.enabled'' =
      '' on Port '' @ (case map_of config ''.port'' of Some v \<Rightarrow> py_str v | None \<Rightarrow> ''N/A'')"
    by (simp add: spec_line_def split_dot_first_def upper_def lower_def)
  have "(''.enabled'', JBool True) \<in> set (filter spec_enabled config)"
    using assms e by simp
  then have "spec_line config (fst (''.enabled'', JBool True)) \<in> set (spec_lines config)"
    unfolding spec_lines_def by (metis (no_types) image_eqI list.set_map)
  then have in_lines: "spec_line config ''.enabled'' \<in> set (spec_lines config)" by simp
  then have "spec_lines config \<noteq> []" by auto
  then show ?thesis
    using in_lines l by (simp add: collect_services_eq spec_lines_def Let_def)
qed

theorem parse_config_empty_prefix_witness:
  "(''.enabled'', JBool True) \<in> set nameless_config
   \<and> '' on Port 8080'' \<in> set (parse_config (Present (Dict nameless_config)))
   \<and> (''.enabled'', JBool True) \<in> set [(''.enabled'', JBool True)]
   \<and> '' on Port N/A'' \<in> set (parse_config (Present (Dict [(''.enabled'', JBool True)])))"
proof -
  have a: "(''.enabled'', JBool True) \<in> set nameless_config"
    by (simp add: nameless_config_def)
  have b: "(''.enabled'', JBool True) \<in> set [(''.enabled'', JBool True)]"
    by simp
  have pa: "(case map_of nameless_config ''.port'' of Some v \<Rightarrow> py_str v | None \<Rightarrow> ''N/A'')
      = ''8080''"
    by (simp add: nameless_config_def str_int_def digit_char_def)
  have pb: "(case map_of [(''.enabled'', JBool True)] ''.port'' of
      Some v \<Rightarrow> py_str v | None \<Rightarrow> ''N/A'') = ''N/A''"
    by simp
  show ?thesis
    using a b parse_config_empty_prefix [OF a] parse_config_empty_prefix [OF b]
    unfolding pa pb by simp
qed

end
